theory Spec2Isabelle
  imports Main
begin

section \<open>Python values used by the workflow\<close>

text \<open>
  The workflow of \<^verbatim>\<open>src/workflow\<close> threads one dictionary of type \<^verbatim>\<open>WorkflowState\<close>
  through nineteen node functions. Text fields are \<^verbatim>\<open>Optional[str]\<close>: \<open>None\<close> is
  Python's \<^verbatim>\<open>None\<close> (every text key is present, as in the initial state built by
  \<^verbatim>\<open>app.py\<close>). Characters are 8-bit; the helpers below are the \<^verbatim>\<open>str\<close> methods the
  nodes call, restricted to that range.
\<close>

definition falsy :: "string option \<Rightarrow> bool" where
  \<comment> \<open>\<^verbatim>\<open>not x\<close> for an \<^verbatim>\<open>Optional[str]\<close>: \<^verbatim>\<open>None\<close> and the empty string are false.\<close>
  "falsy x = (case x of None \<Rightarrow> True | Some t \<Rightarrow> t = [])"

definition fmt :: "string option \<Rightarrow> string" where
  \<comment> \<open>The text an f-string inserts for \<^verbatim>\<open>{x}\<close>.\<close>
  "fmt x = (case x of None \<Rightarrow> ''None'' | Some t \<Rightarrow> t)"

definition startswith :: "string \<Rightarrow> string \<Rightarrow> bool" where
  "startswith t p = (take (length p) t = p)"

definition endswith :: "string \<Rightarrow> string \<Rightarrow> bool" where
  "endswith t p = (length p \<le> length t \<and> drop (length t - length p) t = p)"

definition removeprefix :: "string \<Rightarrow> string \<Rightarrow> string" where
  "removeprefix t p = (if startswith t p then drop (length p) t else t)"

definition removesuffix :: "string \<Rightarrow> string \<Rightarrow> string" where
  "removesuffix t p =
     (if p \<noteq> [] \<and> endswith t p then take (length t - length p) t else t)"

definition isspace :: "char \<Rightarrow> bool" where
  \<comment> \<open>The characters below 256 that \<^verbatim>\<open>str.strip()\<close> removes.\<close>
  "isspace c = (c \<in> set [CHR 0x09, CHR 0x0A, CHR 0x0B, CHR 0x0C, CHR 0x0D,
                          CHR 0x1C, CHR 0x1D, CHR 0x1E, CHR 0x1F, CHR 0x20,
                          CHR 0x85, CHR 0xA0])"

definition strip :: "string \<Rightarrow> string" where
  "strip t = rev (dropWhile isspace (rev (dropWhile isspace t)))"

abbreviation NL :: string where
  "NL \<equiv> [CHR 0x0A]"

definition fence_python :: string where
  \<comment> \<open>The opening Markdown fence: three backquotes and the word python.\<close>
  "fence_python = [CHR 0x60, CHR 0x60, CHR 0x60] @ ''python''"

definition fence :: string where
  "fence = [CHR 0x60, CHR 0x60, CHR 0x60]"

definition clean_code :: "string \<Rightarrow> string" where
  \<comment> \<open>\<^verbatim>\<open>content.strip().removeprefix(fence_python).removesuffix(fence).strip()\<close>\<close>
  "clean_code c = strip (removesuffix (removeprefix (strip c) fence_python) fence)"

section \<open>The state record\<close>

record WorkflowState =
  user_requirements :: "string option"
  user_stories :: "string option"
  po_review_outcome :: "string option"
  po_review_feedback :: "string option"
  design_documents :: "string option"
  design_review_outcome :: "string option"
  design_review_feedback :: "string option"
  generated_code :: "string option"
  code_review_outcome :: "string option"
  code_review_feedback :: "string option"
  security_review_outcome :: "string option"
  security_review_feedback :: "string option"
  test_cases :: "string option"
  test_case_review_outcome :: "string option"
  test_case_review_feedback :: "string option"
  qa_test_outcome :: "string option"
  qa_test_feedback :: "string option"
  deployment_status :: "string option"
  monitoring_feedback :: "string option"
  maintenance_updates_log :: "string list"
  llm_provider :: "string option"
  step_counter :: "int option"

text \<open>
  \<open>step_counter\<close> is \<open>None\<close> when the key is absent: every node tests
  \<^verbatim>\<open>"step_counter" not in state\<close> and every decision reads it with the default 0.
\<close>

definition get_step_counter :: "WorkflowState \<Rightarrow> int" where
  \<comment> \<open>\<^verbatim>\<open>state.get("step_counter", 0)\<close>\<close>
  "get_step_counter state = (case step_counter state of None \<Rightarrow> 0 | Some n \<Rightarrow> n)"

definition increment_step_counter :: "WorkflowState \<Rightarrow> WorkflowState" where
  \<comment> \<open>The first three statements of every node.\<close>
  "increment_step_counter state =
     (let state1 = (if step_counter state = None then state\<lparr>step_counter := Some 0\<rparr> else state)
      in state1\<lparr>step_counter := Some (the (step_counter state1) + 1)\<rparr>)"

definition initial_state :: "string \<Rightarrow> string option \<Rightarrow> WorkflowState" where
  \<comment> \<open>The dictionary \<^verbatim>\<open>app.py\<close> passes to \<^verbatim>\<open>invoke\<close>.\<close>
  "initial_state requirements provider =
     \<lparr> user_requirements = Some requirements,
       user_stories = None,
       po_review_outcome = None,
       po_review_feedback = None,
       design_documents = None,
       design_review_outcome = None,
       design_review_feedback = None,
       generated_code = None,
       code_review_outcome = None,
       code_review_feedback = None,
       security_review_outcome = None,
       security_review_feedback = None,
       test_cases = None,
       test_case_review_outcome = None,
       test_case_review_feedback = None,
       qa_test_outcome = None,
       qa_test_feedback = None,
       deployment_status = None,
       monitoring_feedback = None,
       maintenance_updates_log = [],
       llm_provider = provider,
       step_counter = Some 0 \<rparr>"

section \<open>The generation service\<close>

text \<open>
  A node asks for generated text at most once. \<open>gen\<close> is what that request meets:
  \<^verbatim>\<open>get_llm(state)\<close> returns \<^verbatim>\<open>None\<close> (no client for the provider, or the call
  budget is spent), the client's \<^verbatim>\<open>invoke\<close> raises an exception whose text is
  \<open>e\<close>, or it returns a message whose \<^verbatim>\<open>content\<close> is \<open>c\<close>. Display calls and
  the progress tracker do not touch the state and are left out.
\<close>

datatype gen = Unavailable | Raises string | Content string

section \<open>Node functions\<close>

definition gather_requirements :: "string \<Rightarrow> WorkflowState \<Rightarrow> WorkflowState" where
  \<comment> \<open>\<open>user_input\<close> is the value the text area returns.\<close>
  "gather_requirements user_input state0 =
     (let state = increment_step_counter state0 in
      if user_input = [] then state
      else state\<lparr>user_requirements := Some user_input\<rparr>)"

definition create_user_stories :: "gen \<Rightarrow> WorkflowState \<Rightarrow> WorkflowState" where
  "create_user_stories g state0 =
     (let state = increment_step_counter state0;
          requirements = user_requirements state in
      if falsy requirements then state
      else (case g of
              Unavailable \<Rightarrow> state\<lparr>user_stories := Some ''User Story generation skipped.''\<rparr>
            | Content c \<Rightarrow> state\<lparr>user_stories := Some (strip c)\<rparr>
            | Raises e \<Rightarrow> state\<lparr>user_stories := Some (''Error generating stories: '' @ e)\<rparr>))"

definition product_owner_review :: "WorkflowState \<Rightarrow> WorkflowState" where
  "product_owner_review state0 =
     (let state = increment_step_counter state0;
          stories = user_stories state in
      if falsy stories then
        state\<lparr>po_review_outcome := Some ''Rejected'',
              po_review_feedback := Some ''No user stories provided for review.''\<rparr>
      else
        state\<lparr>po_review_outcome := Some ''Approved'',
              po_review_feedback :=
                Some ''User stories meet requirements and are well-structured.''\<rparr>)"

definition revise_user_stories :: "gen \<Rightarrow> WorkflowState \<Rightarrow> WorkflowState" where
  "revise_user_stories g state0 =
     (let state = increment_step_counter state0;
          feedback = po_review_feedback state;
          current_stories = user_stories state in
      if falsy current_stories \<or> falsy feedback then
        state\<lparr>user_stories := Some ''Revised user stories (placeholder)''\<rparr>
      else (case g of
              Unavailable \<Rightarrow>
                state\<lparr>user_stories := Some (fmt current_stories @ NL @ NL @
                         ''// Revision skipped - feedback was: '' @ fmt feedback)\<rparr>
            | Content c \<Rightarrow> state\<lparr>user_stories := Some (strip c)\<rparr>
            | Raises e \<Rightarrow> state\<lparr>user_stories := current_stories\<rparr>))"

definition create_design :: "gen \<Rightarrow> WorkflowState \<Rightarrow> WorkflowState" where
  "create_design g state0 =
     (let state = increment_step_counter state0;
          stories = user_stories state;
          requirements = user_requirements state in
      if falsy stories then state
      else (case g of
              Unavailable \<Rightarrow>
                state\<lparr>design_documents :=
                  Some (''Design document generation skipped. Based on requirements:'' @ NL @
                        fmt requirements)\<rparr>
            | Content c \<Rightarrow> state\<lparr>design_documents := Some (strip c)\<rparr>
            | Raises e \<Rightarrow>
                state\<lparr>design_documents := Some (''Error creating design documents: '' @ e)\<rparr>))"

definition design_review :: "WorkflowState \<Rightarrow> WorkflowState" where
  "design_review state0 =
     (let state = increment_step_counter state0;
          design = design_documents state in
      if falsy design then
        state\<lparr>design_review_outcome := Some ''Rejected'',
              design_review_feedback := Some ''No design documents provided for review.''\<rparr>
      else
        state\<lparr>design_review_outcome := Some ''Approved'',
              design_review_feedback :=
                Some ''Design documents are comprehensive and align with requirements.''\<rparr>)"

definition generate_code :: "gen \<Rightarrow> WorkflowState \<Rightarrow> WorkflowState" where
  "generate_code g state0 =
     (let state = increment_step_counter state0;
          context = (if \<not> falsy (design_documents state) then design_documents state
                     else if \<not> falsy (user_stories state) then user_stories state
                     else Some []) in
      if falsy context then state
      else (case g of
              Unavailable \<Rightarrow> state\<lparr>generated_code := Some ''# Code generation skipped.''\<rparr>
            | Content c \<Rightarrow> state\<lparr>generated_code := Some (clean_code c)\<rparr>
            | Raises e \<Rightarrow> state\<lparr>generated_code := Some (''# Error generating code: '' @ e)\<rparr>))"

definition no_valid_code :: "string option \<Rightarrow> bool" where
  \<comment> \<open>The guard shared by the code review, the security review, the test writer and monitoring.\<close>
  "no_valid_code code =
     (case code of
        None \<Rightarrow> True
      | Some t \<Rightarrow> t = [] \<or> startswith t ''# Error''
                       \<or> startswith t ''# Code generation skipped'')"

definition code_review :: "WorkflowState \<Rightarrow> WorkflowState" where
  "code_review state0 =
     (let state = increment_step_counter state0;
          code = generated_code state in
      if no_valid_code code then
        state\<lparr>code_review_outcome := Some ''Rejected'',
              code_review_feedback := Some ''No valid code provided for review.''\<rparr>
      else
        state\<lparr>code_review_outcome := Some ''Approved'',
              code_review_feedback :=
                Some ''Code is clean, well-documented, and follows best practices.''\<rparr>)"

definition fix_code_after_code_review :: "gen \<Rightarrow> WorkflowState \<Rightarrow> WorkflowState" where
  "fix_code_after_code_review g state0 =
     (let state = increment_step_counter state0;
          feedback = code_review_feedback state;
          current_code = generated_code state in
      if falsy current_code \<or> falsy feedback then
        state\<lparr>generated_code := Some ''# Fixed code (placeholder)''\<rparr>
      else (case g of
              Unavailable \<Rightarrow>
                state\<lparr>generated_code := Some (fmt current_code @ NL @ NL @
                         ''# Revision skipped - feedback was: '' @ fmt feedback)\<rparr>
            | Content c \<Rightarrow>
                state\<lparr>generated_code := Some (clean_code c)\<rparr>
            | Raises e \<Rightarrow> state\<lparr>generated_code := current_code\<rparr>))"

definition security_review :: "WorkflowState \<Rightarrow> WorkflowState" where
  "security_review state0 =
     (let state = increment_step_counter state0;
          code = generated_code state in
      if no_valid_code code then state
      else state\<lparr>security_review_outcome := Some ''Approved'',
                 security_review_feedback := None\<rparr>)"

definition fix_code_after_security :: "gen \<Rightarrow> WorkflowState \<Rightarrow> WorkflowState" where
  "fix_code_after_security g state0 =
     (let state = increment_step_counter state0;
          feedback = security_review_feedback state;
          current_code = generated_code state in
      if falsy current_code then
        state\<lparr>generated_code := Some ''# Security-fixed code (placeholder)''\<rparr>
      else if \<not> falsy feedback then
        (case g of
           Unavailable \<Rightarrow>
             state\<lparr>generated_code := Some (fmt current_code @ NL @ NL @
                      ''# Security fixes skipped - feedback was: '' @ fmt feedback)\<rparr>
         | Content c \<Rightarrow>
             state\<lparr>generated_code := Some (clean_code c)\<rparr>
         | Raises e \<Rightarrow> state\<lparr>generated_code := current_code\<rparr>)
      else
        state\<lparr>generated_code := Some (fmt current_code @ NL @ NL @
                 ''# Security enhancements added'')\<rparr>)"

definition no_valid_tests :: "string option \<Rightarrow> bool" where
  \<comment> \<open>The guard on \<^verbatim>\<open>test_cases\<close> in the test review and in QA.\<close>
  "no_valid_tests tests =
     (case tests of
        None \<Rightarrow> True
      | Some t \<Rightarrow> t = [] \<or> startswith t ''Test case generation skipped''
                       \<or> startswith t ''Error generating'')"

definition write_test_cases :: "gen \<Rightarrow> WorkflowState \<Rightarrow> WorkflowState" where
  "write_test_cases g state0 =
     (let state = increment_step_counter state0;
          code = generated_code state in
      if no_valid_code code then
        state\<lparr>test_cases := Some ''Test case generation skipped due to missing code.''\<rparr>
      else (case g of
              Unavailable \<Rightarrow>
                state\<lparr>test_cases := Some ''Test case generation skipped due to missing LLM.''\<rparr>
            | Content c \<Rightarrow> state\<lparr>test_cases := Some (strip c)\<rparr>
            | Raises e \<Rightarrow> state\<lparr>test_cases := Some (''Error generating test cases: '' @ e)\<rparr>))"

definition test_cases_review :: "WorkflowState \<Rightarrow> WorkflowState" where
  "test_cases_review state0 =
     (let state = increment_step_counter state0;
          tests = test_cases state in
      if no_valid_tests tests then
        state\<lparr>test_case_review_outcome := Some ''Rejected'',
              test_case_review_feedback := Some ''No valid test cases provided for review.''\<rparr>
      else
        state\<lparr>test_case_review_outcome := Some ''Approved'',
              test_case_review_feedback :=
                Some ''Test cases provide good coverage and include edge cases.''\<rparr>)"

definition fix_test_cases_after_review :: "gen \<Rightarrow> WorkflowState \<Rightarrow> WorkflowState" where
  "fix_test_cases_after_review g state0 =
     (let state = increment_step_counter state0;
          feedback = test_case_review_feedback state;
          current_tests = test_cases state in
      if falsy current_tests \<or> falsy feedback then
        state\<lparr>test_cases := Some ''Fixed test cases (placeholder)''\<rparr>
      else (case g of
              Unavailable \<Rightarrow>
                state\<lparr>test_cases := Some (fmt current_tests @ NL @ NL @
                         ''// Revision skipped - feedback was: '' @ fmt feedback)\<rparr>
            | Content c \<Rightarrow> state\<lparr>test_cases := Some (strip c)\<rparr>
            | Raises e \<Rightarrow> state\<lparr>test_cases := current_tests\<rparr>))"

definition qa_testing :: "WorkflowState \<Rightarrow> WorkflowState" where
  "qa_testing state0 =
     (let state = increment_step_counter state0;
          code = generated_code state;
          tests = test_cases state in
      if falsy code \<or> no_valid_tests tests then
        state\<lparr>qa_test_outcome := Some ''Skipped'',
              qa_test_feedback :=
                Some ''QA testing skipped due to missing code or test cases.''\<rparr>
      else
        state\<lparr>qa_test_outcome := Some ''Passed'', qa_test_feedback := None\<rparr>)"

definition fix_code_after_qa_feedback :: "gen \<Rightarrow> WorkflowState \<Rightarrow> WorkflowState" where
  "fix_code_after_qa_feedback g state0 =
     (let state = increment_step_counter state0;
          feedback = qa_test_feedback state;
          current_code = generated_code state in
      if falsy current_code then
        state\<lparr>generated_code := Some ''# QA-fixed code (placeholder)''\<rparr>
      else if \<not> falsy feedback then
        (case g of
           Unavailable \<Rightarrow>
             state\<lparr>generated_code := Some (fmt current_code @ NL @ NL @
                      ''# QA fixes skipped - feedback was: '' @ fmt feedback)\<rparr>
         | Content c \<Rightarrow>
             state\<lparr>generated_code := Some (clean_code c), qa_test_outcome := Some ''Passed''\<rparr>
         | Raises e \<Rightarrow>
             state\<lparr>generated_code := current_code, qa_test_outcome := Some ''Passed''\<rparr>)
      else
        state\<lparr>generated_code := current_code, qa_test_outcome := Some ''Passed''\<rparr>)"

definition deployment :: "WorkflowState \<Rightarrow> WorkflowState" where
  "deployment state0 =
     (let state = increment_step_counter state0;
          code = generated_code state;
          qa_outcome = qa_test_outcome state;
          status = (if falsy code \<or> falsy qa_outcome \<or> qa_outcome = Some ''Failed''
                       \<or> qa_outcome = Some ''Skipped''
                    then ''Deployment skipped due to issues in code or QA testing.''
                    else ''Deployed to Staging Environment. Verification tests passed.'') in
      state\<lparr>deployment_status := Some status\<rparr>)"

definition monitoring_and_feedback :: "gen \<Rightarrow> WorkflowState \<Rightarrow> WorkflowState" where
  "monitoring_and_feedback g state0 =
     (let state = increment_step_counter state0;
          code = generated_code state;
          feedback = (if no_valid_code code then ''Monitoring skipped due to missing code.''
                      else (case g of
                              Unavailable \<Rightarrow> ''Monitoring feedback skipped due to missing LLM.''
                            | Content c \<Rightarrow> strip c
                            | Raises e \<Rightarrow> ''Error during monitoring: '' @ e)) in
      state\<lparr>monitoring_feedback := Some feedback\<rparr>)"

definition maintenance_and_updates :: "WorkflowState \<Rightarrow> WorkflowState" where
  "maintenance_and_updates state0 =
     (let state = increment_step_counter state0;
          log_entry = ''Cycle Complete. Monitoring feedback processed and ticket created to address issues.'';
          current_log = maintenance_updates_log state in
      state\<lparr>maintenance_updates_log := current_log @ [log_entry],
            step_counter := Some (- 1)\<rparr>)"

section \<open>Decision functions\<close>

definition decide_after_po_review :: "WorkflowState \<Rightarrow> string" where
  "decide_after_po_review state =
     (if get_step_counter state > 25 then ''create_design''
      else if po_review_outcome state = Some ''Approved'' then ''create_design''
      else ''revise_user_stories'')"

definition decide_after_design_review :: "WorkflowState \<Rightarrow> string" where
  "decide_after_design_review state =
     (if get_step_counter state > 25 then ''generate_code''
      else if design_review_outcome state = Some ''Approved'' then ''generate_code''
      else ''create_design'')"

definition decide_after_code_review :: "WorkflowState \<Rightarrow> string" where
  "decide_after_code_review state =
     (if get_step_counter state > 25 then ''security_review''
      else if code_review_outcome state = Some ''Approved'' then ''security_review''
      else ''fix_code_after_code_review'')"

definition decide_after_security_review :: "WorkflowState \<Rightarrow> string" where
  "decide_after_security_review state =
     (if get_step_counter state > 25 then ''write_test_cases''
      else if security_review_outcome state = Some ''Approved'' then ''write_test_cases''
      else ''fix_code_after_security'')"

definition decide_after_test_cases_review :: "WorkflowState \<Rightarrow> string" where
  "decide_after_test_cases_review state =
     (if get_step_counter state > 25 then ''qa_testing''
      else if test_case_review_outcome state = Some ''Approved'' then ''qa_testing''
      else ''fix_test_cases_after_review'')"

definition decide_after_qa_testing :: "WorkflowState \<Rightarrow> string" where
  "decide_after_qa_testing state =
     (if get_step_counter state > 25 then ''deployment''
      else if qa_test_outcome state = Some ''Passed'' then ''deployment''
      else ''fix_code_after_qa_feedback'')"

section \<open>The workflow graph\<close>

text \<open>
  \<^verbatim>\<open>create_workflow_graph\<close> registers the nodes, the entry point, the fixed edges and the
  conditional edges. A registered node receives the outcome of its generation request
  and the text-area value, and uses what it needs.
\<close>

definition END :: string where
  "END = ''__end__''"

definition nodes :: "(string \<times> (gen \<Rightarrow> string \<Rightarrow> WorkflowState \<Rightarrow> WorkflowState)) list" where
  "nodes =
     [(''gather_requirements'', \<lambda>g ui. gather_requirements ui),
      (''create_user_stories'', \<lambda>g ui. create_user_stories g),
      (''product_owner_review'', \<lambda>g ui. product_owner_review),
      (''revise_user_stories'', \<lambda>g ui. revise_user_stories g),
      (''create_design'', \<lambda>g ui. create_design g),
      (''design_review'', \<lambda>g ui. design_review),
      (''generate_code'', \<lambda>g ui. generate_code g),
      (''code_review'', \<lambda>g ui. code_review),
      (''fix_code_after_code_review'', \<lambda>g ui. fix_code_after_code_review g),
      (''security_review'', \<lambda>g ui. security_review),
      (''fix_code_after_security'', \<lambda>g ui. fix_code_after_security g),
      (''write_test_cases'', \<lambda>g ui. write_test_cases g),
      (''test_cases_review'', \<lambda>g ui. test_cases_review),
      (''fix_test_cases_after_review'', \<lambda>g ui. fix_test_cases_after_review g),
      (''qa_testing'', \<lambda>g ui. qa_testing),
      (''fix_code_after_qa_feedback'', \<lambda>g ui. fix_code_after_qa_feedback g),
      (''deployment'', \<lambda>g ui. deployment),
      (''monitoring_and_feedback'', \<lambda>g ui. monitoring_and_feedback g),
      (''maintenance_and_updates'', \<lambda>g ui. maintenance_and_updates)]"

definition entry_point :: string where
  "entry_point = ''gather_requirements''"

definition edges :: "(string \<times> string) list" where
  "edges =
     [(''gather_requirements'', ''create_user_stories''),
      (''create_user_stories'', ''product_owner_review''),
      (''revise_user_stories'', ''product_owner_review''),
      (''create_design'', ''design_review''),
      (''generate_code'', ''code_review''),
      (''fix_code_after_code_review'', ''code_review''),
      (''fix_code_after_security'', ''security_review''),
      (''write_test_cases'', ''test_cases_review''),
      (''fix_test_cases_after_review'', ''test_cases_review''),
      (''fix_code_after_qa_feedback'', ''qa_testing''),
      (''deployment'', ''monitoring_and_feedback''),
      (''monitoring_and_feedback'', ''maintenance_and_updates''),
      (''maintenance_and_updates'', END)]"

definition conditional_edges ::
  "(string \<times> (WorkflowState \<Rightarrow> string) \<times> (string \<times> string) list) list" where
  "conditional_edges =
     [(''product_owner_review'', decide_after_po_review,
         [(''create_design'', ''create_design''),
          (''revise_user_stories'', ''revise_user_stories'')]),
      (''design_review'', decide_after_design_review,
         [(''generate_code'', ''generate_code''),
          (''create_design'', ''create_design'')]),
      (''code_review'', decide_after_code_review,
         [(''security_review'', ''security_review''),
          (''fix_code_after_code_review'', ''fix_code_after_code_review'')]),
      (''security_review'', decide_after_security_review,
         [(''write_test_cases'', ''write_test_cases''),
          (''fix_code_after_security'', ''fix_code_after_security'')]),
      (''test_cases_review'', decide_after_test_cases_review,
         [(''qa_testing'', ''qa_testing''),
          (''fix_test_cases_after_review'', ''fix_test_cases_after_review'')]),
      (''qa_testing'', decide_after_qa_testing,
         [(''deployment'', ''deployment''),
          (''fix_code_after_qa_feedback'', ''fix_code_after_qa_feedback'')])]"

definition next_node :: "string \<Rightarrow> WorkflowState \<Rightarrow> string option" where
  \<comment> \<open>The successor of a node: through its decision function and path map, or its fixed edge.\<close>
  "next_node node state =
     (case map_of conditional_edges node of
        Some (decide, path_map) \<Rightarrow> map_of path_map (decide state)
      | None \<Rightarrow> map_of edges node)"

section \<open>The engine\<close>

text \<open>
  Modelled from the spec: the executor that runs the compiled graph belongs to the
  graph library and is not part of the sources. Following section 4.3 of the
  specification it starts at the entry stage, merges what the stage returns onto the
  state, follows the fixed or conditional edge, stops after the stage whose edge leads
  to \<open>END\<close>, and fails with \<open>RecursionLimitExceeded\<close> when the cap on stage
  invocations is used up first. The merge overwrites every key the stage returns;
  \<^verbatim>\<open>maintenance_updates_log\<close> is declared in \<^verbatim>\<open>state.py\<close> with the reducer
  \<^verbatim>\<open>operator.add\<close>, so the returned list is appended to the stored one.
  \<open>oracle k\<close> is what the generation request of stage invocation \<open>k\<close> meets; the
  result carries the names of the stages invoked, in order.
\<close>

datatype run_error = RecursionLimitExceeded | UnknownNode string

definition merge :: "WorkflowState \<Rightarrow> WorkflowState \<Rightarrow> WorkflowState" where
  "merge state patch =
     patch\<lparr>maintenance_updates_log :=
             maintenance_updates_log state @ maintenance_updates_log patch\<rparr>"

fun run_from ::
  "nat \<Rightarrow> (nat \<Rightarrow> gen) \<Rightarrow> string \<Rightarrow> nat \<Rightarrow> string \<Rightarrow> WorkflowState
     \<Rightarrow> run_error + (string list \<times> WorkflowState)" where
  "run_from 0 oracle ui k node state = Inl RecursionLimitExceeded"
| "run_from (Suc cap) oracle ui k node state =
     (case map_of nodes node of
        None \<Rightarrow> Inl (UnknownNode node)
      | Some stage_fn \<Rightarrow>
          (let state' = merge state (stage_fn (oracle k) ui state) in
           case next_node node state' of
             None \<Rightarrow> Inl (UnknownNode node)
           | Some successor \<Rightarrow>
               if successor = END then Inr ([node], state')
               else (case run_from cap oracle ui (Suc k) successor state' of
                       Inl err \<Rightarrow> Inl err
                     | Inr (trace, final) \<Rightarrow> Inr (node # trace, final))))"

definition run ::
  "nat \<Rightarrow> (nat \<Rightarrow> gen) \<Rightarrow> string \<Rightarrow> WorkflowState
     \<Rightarrow> run_error + (string list \<times> WorkflowState)" where
  "run cap oracle ui state = run_from cap oracle ui 0 entry_point state"

text \<open>
  \<open>then_run node r\<close> puts \<open>node\<close> in front of the trace of a finished run
  \<open>r\<close> and passes a failure on: the last case distinction of \<open>run_from\<close>.
\<close>

definition then_run ::
  "string \<Rightarrow> run_error + (string list \<times> WorkflowState)
     \<Rightarrow> run_error + (string list \<times> WorkflowState)" where
  "then_run node r =
     (case r of Inl err \<Rightarrow> Inl err | Inr (trace, final) \<Rightarrow> Inr (node # trace, final))"

section \<open>Generation services and traces used in the run theorems\<close>

definition always_unavailable :: "nat \<Rightarrow> gen" where
  \<comment> \<open>No client on any request.\<close>
  "always_unavailable k = Unavailable"

definition always_returns :: "string \<Rightarrow> nat \<Rightarrow> gen" where
  \<comment> \<open>A stub that answers every request with the same text.\<close>
  "always_returns c k = Content c"

definition passes_review :: "string \<Rightarrow> bool" where
  \<comment> \<open>A reply that none of the review guards rejects, whichever stage receives it.\<close>
  "passes_review c =
     (strip c \<noteq> [] \<and> \<not> no_valid_code (Some (clean_code c))
        \<and> \<not> no_valid_tests (Some (strip c)))"

definition approved_trace :: "string list" where
  \<comment> \<open>The stages of a run in which every review approves at once.\<close>
  "approved_trace =
     [''gather_requirements'', ''create_user_stories'', ''product_owner_review'',
      ''create_design'', ''design_review'', ''generate_code'', ''code_review'',
      ''security_review'', ''write_test_cases'', ''test_cases_review'', ''qa_testing'',
      ''deployment'', ''monitoring_and_feedback'', ''maintenance_and_updates'']"

section \<open>Example states\<close>

definition guard_example :: WorkflowState where
  "guard_example =
     (initial_state ''Build a login page with SSO'' (Some ''groq''))
       \<lparr>po_review_outcome := Some ''Rejected'',
        design_review_outcome := Some ''Rejected'',
        code_review_outcome := Some ''Rejected'',
        test_case_review_outcome := Some ''Rejected'',
        qa_test_outcome := Some ''Failed'',
        step_counter := Some 26\<rparr>"

definition rejected_example :: WorkflowState where
  "rejected_example =
     (initial_state ''Build a login page with SSO'' (Some ''groq''))
       \<lparr>po_review_outcome := Some ''Approved'',
        design_review_outcome := Some ''Rejected'',
        code_review_outcome := Some ''Rejected'',
        security_review_outcome := Some ''Approved'',
        test_case_review_outcome := Some ''Rejected'',
        qa_test_outcome := Some ''Skipped'',
        step_counter := Some 25\<rparr>"

definition passed_example :: WorkflowState where
  "passed_example =
     (initial_state ''Build a login page with SSO'' (Some ''groq''))
       \<lparr>generated_code := Some ''def login(): return True'',
        qa_test_outcome := Some ''Passed''\<rparr>"

definition stories_example :: WorkflowState where
  "stories_example =
     (initial_state ''Build a login page with SSO'' (Some ''groq''))
       \<lparr>user_stories := Some ''As a user, I want to log in.'',
        po_review_outcome := Some ''Rejected'',
        po_review_feedback := Some ''Stories are too vague.''\<rparr>"

definition reviewed_example :: WorkflowState where
  "reviewed_example =
     (initial_state ''Build a login page with SSO'' (Some ''groq''))
       \<lparr>user_stories := Some ''As a user, I want to log in.'',
        design_documents := Some ''One page, one form.'',
        generated_code := Some ''def login(): return True'',
        test_cases := Some ''assert login()''\<rparr>"


section \<open>The step counter\<close>

lemma step_counter_incremented:
  "step_counter (increment_step_counter s) = Some (get_step_counter s + 1)"
  by (cases "step_counter s") (simp_all add: increment_step_counter_def get_step_counter_def)

lemma sc_gather_requirements:
  "step_counter (gather_requirements ui s) = Some (get_step_counter s + 1)"
  by (simp add: gather_requirements_def Let_def step_counter_incremented)

lemma sc_create_user_stories:
  "step_counter (create_user_stories g s) = Some (get_step_counter s + 1)"
  by (simp add: create_user_stories_def Let_def step_counter_incremented split: gen.split)

lemma sc_product_owner_review:
  "step_counter (product_owner_review s) = Some (get_step_counter s + 1)"
  by (simp add: product_owner_review_def Let_def step_counter_incremented)

lemma sc_revise_user_stories:
  "step_counter (revise_user_stories g s) = Some (get_step_counter s + 1)"
  by (simp add: revise_user_stories_def Let_def step_counter_incremented split: gen.split)

lemma sc_create_design:
  "step_counter (create_design g s) = Some (get_step_counter s + 1)"
  by (simp add: create_design_def Let_def step_counter_incremented split: gen.split)

lemma sc_design_review:
  "step_counter (design_review s) = Some (get_step_counter s + 1)"
  by (simp add: design_review_def Let_def step_counter_incremented)

lemma sc_generate_code:
  "step_counter (generate_code g s) = Some (get_step_counter s + 1)"
  by (simp add: generate_code_def Let_def step_counter_incremented split: gen.split)

lemma sc_code_review:
  "step_counter (code_review s) = Some (get_step_counter s + 1)"
  by (simp add: code_review_def Let_def step_counter_incremented)

lemma sc_fix_code_after_code_review:
  "step_counter (fix_code_after_code_review g s) = Some (get_step_counter s + 1)"
  by (simp add: fix_code_after_code_review_def Let_def step_counter_incremented split: gen.split)

lemma sc_security_review:
  "step_counter (security_review s) = Some (get_step_counter s + 1)"
  by (simp add: security_review_def Let_def step_counter_incremented)

lemma sc_fix_code_after_security:
  "step_counter (fix_code_after_security g s) = Some (get_step_counter s + 1)"
  by (simp add: fix_code_after_security_def Let_def step_counter_incremented split: gen.split)

lemma sc_write_test_cases:
  "step_counter (write_test_cases g s) = Some (get_step_counter s + 1)"
  by (simp add: write_test_cases_def Let_def step_counter_incremented split: gen.split)

lemma sc_test_cases_review:
  "step_counter (test_cases_review s) = Some (get_step_counter s + 1)"
  by (simp add: test_cases_review_def Let_def step_counter_incremented)

lemma sc_fix_test_cases_after_review:
  "step_counter (fix_test_cases_after_review g s) = Some (get_step_counter s + 1)"
  by (simp add: fix_test_cases_after_review_def Let_def step_counter_incremented split: gen.split)

lemma sc_qa_testing:
  "step_counter (qa_testing s) = Some (get_step_counter s + 1)"
  by (simp add: qa_testing_def Let_def step_counter_incremented)

lemma sc_fix_code_after_qa_feedback:
  "step_counter (fix_code_after_qa_feedback g s) = Some (get_step_counter s + 1)"
  by (simp add: fix_code_after_qa_feedback_def Let_def step_counter_incremented split: gen.split)

lemma sc_deployment:
  "step_counter (deployment s) = Some (get_step_counter s + 1)"
  by (simp add: deployment_def Let_def step_counter_incremented)

lemma sc_monitoring_and_feedback:
  "step_counter (monitoring_and_feedback g s) = Some (get_step_counter s + 1)"
  by (simp add: monitoring_and_feedback_def Let_def step_counter_incremented split: gen.split)

lemma sc_maintenance_and_updates:
  "step_counter (maintenance_and_updates s) = Some (- 1)"
  by (simp add: maintenance_and_updates_def Let_def)

lemmas sc_stage =
  sc_gather_requirements sc_create_user_stories sc_product_owner_review
  sc_revise_user_stories sc_create_design sc_design_review sc_generate_code
  sc_code_review sc_fix_code_after_code_review sc_security_review
  sc_fix_code_after_security sc_write_test_cases sc_test_cases_review
  sc_fix_test_cases_after_review sc_qa_testing sc_fix_code_after_qa_feedback
  sc_deployment sc_monitoring_and_feedback sc_maintenance_and_updates

text \<open>
  Claim C4. Every registered stage leaves \<open>step_counter\<close> one above the value it
  found (an absent counter counts as 0), so the counter never decreases across a stage
  call; the only exception is the terminal stage \<open>maintenance_and_updates\<close>, which
  writes \<open>-1\<close>.
\<close>

theorem step_counter_discipline:
  assumes "(name, stage_fn) \<in> set nodes"
  shows "step_counter (stage_fn g ui s) =
           Some (if name = ''maintenance_and_updates'' then - 1 else get_step_counter s + 1)"
  using assms unfolding nodes_def set_simps insert_iff empty_iff prod.inject
  by (elim disjE conjE FalseE; simp only: sc_stage; simp)

theorem step_counter_discipline_witness:
  "(''gather_requirements'', \<lambda>g ui. gather_requirements ui) \<in> set nodes
     \<and> (''maintenance_and_updates'', \<lambda>g ui. maintenance_and_updates) \<in> set nodes
     \<and> step_counter (gather_requirements ''Build a login page''
          (initial_state ''Build a login page'' None)) = Some 1
     \<and> step_counter (maintenance_and_updates
          (initial_state ''Build a login page'' None)) = Some (- 1)"
proof -
  have h1: "(''gather_requirements'', \<lambda>g ui. gather_requirements ui) \<in> set nodes"
    by (simp add: nodes_def)
  have h2: "(''maintenance_and_updates'', \<lambda>g ui. maintenance_and_updates) \<in> set nodes"
    by (simp add: nodes_def)
  show ?thesis
    using h1 h2
      step_counter_discipline [of "''gather_requirements''"
        "\<lambda>g ui. gather_requirements ui" Unavailable "''Build a login page''"
        "initial_state ''Build a login page'' None"]
      step_counter_discipline [of "''maintenance_and_updates''"
        "\<lambda>g ui. maintenance_and_updates" Unavailable "''Build a login page''"
        "initial_state ''Build a login page'' None"]
    by (simp add: get_step_counter_def initial_state_def)
qed

section \<open>Routing\<close>

text \<open>
  Claim C1. Once \<open>step_counter\<close> exceeds 25, each of the six decision functions
  returns its success-branch stage whatever the review outcome fields hold, a
  \<open>Rejected\<close> or missing outcome included.
\<close>

theorem loop_guard_forces_success_branch:
  assumes "get_step_counter s > 25"
  shows "decide_after_po_review s = ''create_design''
       \<and> decide_after_design_review s = ''generate_code''
       \<and> decide_after_code_review s = ''security_review''
       \<and> decide_after_security_review s = ''write_test_cases''
       \<and> decide_after_test_cases_review s = ''qa_testing''
       \<and> decide_after_qa_testing s = ''deployment''"
  using assms
  by (simp add: decide_after_po_review_def decide_after_design_review_def
        decide_after_code_review_def decide_after_security_review_def
        decide_after_test_cases_review_def decide_after_qa_testing_def)

theorem loop_guard_witness:
  "get_step_counter guard_example = 26
     \<and> po_review_outcome guard_example = Some ''Rejected''
     \<and> security_review_outcome guard_example = None
     \<and> decide_after_po_review guard_example = ''create_design''
     \<and> decide_after_design_review guard_example = ''generate_code''
     \<and> decide_after_code_review guard_example = ''security_review''
     \<and> decide_after_security_review guard_example = ''write_test_cases''
     \<and> decide_after_test_cases_review guard_example = ''qa_testing''
     \<and> decide_after_qa_testing guard_example = ''deployment''"
proof -
  have h: "get_step_counter guard_example > 25"
    by (simp add: guard_example_def get_step_counter_def)
  show ?thesis
    using loop_guard_forces_success_branch [OF h]
    by (simp add: guard_example_def get_step_counter_def initial_state_def)
qed

text \<open>
  Claim C5. While \<open>step_counter\<close> is at most 25, each decision function returns
  the success-branch stage exactly when the outcome is the stage's success value and
  the remediation stage otherwise; the graph routes each review stage through its
  decision function, and the fixed edge of each remediation stage leads back to the
  review stage that rejected.
\<close>

theorem decisions_follow_outcome:
  assumes "get_step_counter s \<le> 25"
  shows "decide_after_po_review s =
           (if po_review_outcome s = Some ''Approved'' then ''create_design''
            else ''revise_user_stories'')
       \<and> decide_after_design_review s =
           (if design_review_outcome s = Some ''Approved'' then ''generate_code''
            else ''create_design'')
       \<and> decide_after_code_review s =
           (if code_review_outcome s = Some ''Approved'' then ''security_review''
            else ''fix_code_after_code_review'')
       \<and> decide_after_security_review s =
           (if security_review_outcome s = Some ''Approved'' then ''write_test_cases''
            else ''fix_code_after_security'')
       \<and> decide_after_test_cases_review s =
           (if test_case_review_outcome s = Some ''Approved'' then ''qa_testing''
            else ''fix_test_cases_after_review'')
       \<and> decide_after_qa_testing s =
           (if qa_test_outcome s = Some ''Passed'' then ''deployment''
            else ''fix_code_after_qa_feedback'')
       \<and> next_node ''product_owner_review'' s = Some (decide_after_po_review s)
       \<and> next_node ''design_review'' s = Some (decide_after_design_review s)
       \<and> next_node ''code_review'' s = Some (decide_after_code_review s)
       \<and> next_node ''security_review'' s = Some (decide_after_security_review s)
       \<and> next_node ''test_cases_review'' s = Some (decide_after_test_cases_review s)
       \<and> next_node ''qa_testing'' s = Some (decide_after_qa_testing s)
       \<and> next_node ''revise_user_stories'' t = Some ''product_owner_review''
       \<and> next_node ''create_design'' t = Some ''design_review''
       \<and> next_node ''fix_code_after_code_review'' t = Some ''code_review''
       \<and> next_node ''fix_code_after_security'' t = Some ''security_review''
       \<and> next_node ''fix_test_cases_after_review'' t = Some ''test_cases_review''
       \<and> next_node ''fix_code_after_qa_feedback'' t = Some ''qa_testing''"
  using assms
  by (simp add: decide_after_po_review_def decide_after_design_review_def
        decide_after_code_review_def decide_after_security_review_def
        decide_after_test_cases_review_def decide_after_qa_testing_def
        next_node_def conditional_edges_def edges_def)

theorem decisions_follow_outcome_witness:
  "get_step_counter rejected_example \<le> 25
     \<and> next_node ''product_owner_review'' rejected_example = Some ''create_design''
     \<and> next_node ''design_review'' rejected_example = Some ''create_design''
     \<and> next_node ''code_review'' rejected_example = Some ''fix_code_after_code_review''
     \<and> next_node ''security_review'' rejected_example = Some ''write_test_cases''
     \<and> next_node ''test_cases_review'' rejected_example = Some ''fix_test_cases_after_review''
     \<and> next_node ''qa_testing'' rejected_example = Some ''fix_code_after_qa_feedback''
     \<and> next_node ''fix_code_after_qa_feedback'' rejected_example = Some ''qa_testing''"
proof -
  have h: "get_step_counter rejected_example \<le> 25"
    by (simp add: rejected_example_def get_step_counter_def)
  show ?thesis
    using h decisions_follow_outcome [of rejected_example rejected_example]
    by (simp add: rejected_example_def initial_state_def)
qed

section \<open>Deployment\<close>

text \<open>
  Claim C8. \<open>deployment\<close> writes the skipped status exactly when
  \<open>generated_code\<close> is missing (\<open>None\<close> or empty), or \<open>qa_test_outcome\<close> is
  missing, \<open>Failed\<close> or \<open>Skipped\<close>; in every other state it writes a status that
  starts with \<open>Deployed\<close>.
\<close>

theorem deployment_status_rule:
  "(deployment_status (deployment s) =
       Some ''Deployment skipped due to issues in code or QA testing.''
     \<longleftrightarrow> (falsy (generated_code s) \<or> falsy (qa_test_outcome s)
           \<or> qa_test_outcome s = Some ''Failed'' \<or> qa_test_outcome s = Some ''Skipped''))
   \<and> (\<not> (falsy (generated_code s) \<or> falsy (qa_test_outcome s)
           \<or> qa_test_outcome s = Some ''Failed'' \<or> qa_test_outcome s = Some ''Skipped'')
        \<longrightarrow> deployment_status (deployment s) =
              Some ''Deployed to Staging Environment. Verification tests passed.''
            \<and> startswith (the (deployment_status (deployment s))) ''Deployed'')"
  by (simp add: deployment_def Let_def increment_step_counter_def startswith_def)

theorem deployment_status_rule_witness:
  "\<not> (falsy (generated_code passed_example) \<or> falsy (qa_test_outcome passed_example)
        \<or> qa_test_outcome passed_example = Some ''Failed''
        \<or> qa_test_outcome passed_example = Some ''Skipped'')
   \<and> deployment_status (deployment passed_example) =
        Some ''Deployed to Staging Environment. Verification tests passed.''
   \<and> deployment_status (deployment (passed_example\<lparr>qa_test_outcome := Some ''Skipped''\<rparr>)) =
        Some ''Deployment skipped due to issues in code or QA testing.''"
proof -
  have h: "\<not> (falsy (generated_code passed_example) \<or> falsy (qa_test_outcome passed_example)
        \<or> qa_test_outcome passed_example = Some ''Failed''
        \<or> qa_test_outcome passed_example = Some ''Skipped'')"
    by (simp add: passed_example_def initial_state_def falsy_def)
  show ?thesis
    using h deployment_status_rule [of passed_example]
      deployment_status_rule [of "passed_example\<lparr>qa_test_outcome := Some ''Skipped''\<rparr>"]
    by simp
qed

section \<open>Review stages\<close>

text \<open>
  Claim C3 says that a review stage that writes its success outcome writes a null
  feedback with it. \<open>product_owner_review\<close> does not: on a state that has user
  stories it writes \<open>Approved\<close> together with a remark.
\<close>

theorem approval_carries_feedback_counterexample:
  "po_review_outcome (product_owner_review stories_example) = Some ''Approved''
     \<and> po_review_feedback (product_owner_review stories_example) =
         Some ''User stories meet requirements and are well-structured.''
     \<and> po_review_feedback (product_owner_review stories_example) \<noteq> None"
  by (simp add: product_owner_review_def stories_example_def initial_state_def Let_def
        increment_step_counter_def falsy_def)

text \<open>
  Claim C3, amended. \<open>qa_testing\<close> writes a null feedback whenever it writes
  \<open>Passed\<close>, and \<open>security_review\<close> writes \<open>Approved\<close> with a null feedback
  whenever the code is valid (otherwise it writes neither field). The other four review
  stages write, together with \<open>Approved\<close>, a fixed approval remark into their
  feedback field.
\<close>

theorem review_feedback_on_success:
  "(qa_test_outcome (qa_testing s) = Some ''Passed'' \<longrightarrow> qa_test_feedback (qa_testing s) = None)
   \<and> (\<not> no_valid_code (generated_code s) \<longrightarrow>
         security_review_outcome (security_review s) = Some ''Approved''
       \<and> security_review_feedback (security_review s) = None)
   \<and> (no_valid_code (generated_code s) \<longrightarrow>
         security_review_outcome (security_review s) = security_review_outcome s
       \<and> security_review_feedback (security_review s) = security_review_feedback s)
   \<and> (po_review_outcome (product_owner_review s) = Some ''Approved'' \<longrightarrow>
         po_review_feedback (product_owner_review s) =
           Some ''User stories meet requirements and are well-structured.'')
   \<and> (design_review_outcome (design_review s) = Some ''Approved'' \<longrightarrow>
         design_review_feedback (design_review s) =
           Some ''Design documents are comprehensive and align with requirements.'')
   \<and> (code_review_outcome (code_review s) = Some ''Approved'' \<longrightarrow>
         code_review_feedback (code_review s) =
           Some ''Code is clean, well-documented, and follows best practices.'')
   \<and> (test_case_review_outcome (test_cases_review s) = Some ''Approved'' \<longrightarrow>
         test_case_review_feedback (test_cases_review s) =
           Some ''Test cases provide good coverage and include edge cases.'')"
  by (simp add: qa_testing_def security_review_def product_owner_review_def design_review_def
        code_review_def test_cases_review_def Let_def increment_step_counter_def)

theorem review_feedback_on_success_witness:
  "qa_test_outcome (qa_testing reviewed_example) = Some ''Passed''
   \<and> qa_test_feedback (qa_testing reviewed_example) = None
   \<and> \<not> no_valid_code (generated_code reviewed_example)
   \<and> security_review_outcome (security_review reviewed_example) = Some ''Approved''
   \<and> security_review_feedback (security_review reviewed_example) = None
   \<and> code_review_outcome (code_review reviewed_example) = Some ''Approved''
   \<and> code_review_feedback (code_review reviewed_example) =
        Some ''Code is clean, well-documented, and follows best practices.''"
proof -
  have h1: "qa_test_outcome (qa_testing reviewed_example) = Some ''Passed''"
    by (simp add: qa_testing_def reviewed_example_def initial_state_def Let_def
          increment_step_counter_def falsy_def no_valid_tests_def startswith_def)
  have h2: "\<not> no_valid_code (generated_code reviewed_example)"
    by (simp add: reviewed_example_def initial_state_def no_valid_code_def startswith_def)
  have h3: "code_review_outcome (code_review reviewed_example) = Some ''Approved''"
    using h2 by (simp add: code_review_def Let_def increment_step_counter_def)
  show ?thesis
    using h1 h2 h3 review_feedback_on_success [of reviewed_example] by simp
qed

section \<open>Repair after QA\<close>

text \<open>
  Claim C6 says that without QA feedback \<open>fix_code_after_qa_feedback\<close> leaves
  \<open>generated_code\<close> unchanged and sets \<open>qa_test_outcome\<close> to \<open>Passed\<close>, for
  every state. On the initial state, which has no code, the stage writes a placeholder
  into \<open>generated_code\<close> and returns before the outcome is written.
\<close>

theorem fix_code_after_qa_counterexample:
  "qa_test_feedback (initial_state ''Build a login page with SSO'' (Some ''groq'')) = None
   \<and> generated_code (fix_code_after_qa_feedback Unavailable
         (initial_state ''Build a login page with SSO'' (Some ''groq'')))
       \<noteq> generated_code (initial_state ''Build a login page with SSO'' (Some ''groq''))
   \<and> qa_test_outcome (fix_code_after_qa_feedback Unavailable
         (initial_state ''Build a login page with SSO'' (Some ''groq''))) \<noteq> Some ''Passed''"
  by (simp add: fix_code_after_qa_feedback_def Let_def increment_step_counter_def falsy_def
        initial_state_def)

text \<open>
  Claim C6, amended. On a state without QA feedback whose \<open>generated_code\<close> is
  present and not empty, the stage leaves \<open>generated_code\<close> unchanged and sets
  \<open>qa_test_outcome\<close> to \<open>Passed\<close>; when \<open>generated_code\<close> is missing or empty
  it writes the placeholder \<open># QA-fixed code (placeholder)\<close> instead.
\<close>

theorem fix_code_after_qa_without_feedback:
  assumes "qa_test_feedback s = None"
  shows "(\<not> falsy (generated_code s) \<longrightarrow>
            generated_code (fix_code_after_qa_feedback g s) = generated_code s
          \<and> qa_test_outcome (fix_code_after_qa_feedback g s) = Some ''Passed'')
       \<and> (falsy (generated_code s) \<longrightarrow>
            generated_code (fix_code_after_qa_feedback g s) =
              Some ''# QA-fixed code (placeholder)'')"
  using assms
  by (simp add: fix_code_after_qa_feedback_def Let_def increment_step_counter_def falsy_def)

theorem fix_code_after_qa_without_feedback_witness:
  "qa_test_feedback reviewed_example = None
   \<and> \<not> falsy (generated_code reviewed_example)
   \<and> generated_code (fix_code_after_qa_feedback Unavailable reviewed_example) =
        Some ''def login(): return True''
   \<and> qa_test_outcome (fix_code_after_qa_feedback Unavailable reviewed_example) =
        Some ''Passed''"
proof -
  have h1: "qa_test_feedback reviewed_example = None"
    by (simp add: reviewed_example_def initial_state_def)
  have h2: "\<not> falsy (generated_code reviewed_example)"
    by (simp add: reviewed_example_def initial_state_def falsy_def)
  have h3: "generated_code reviewed_example = Some ''def login(): return True''"
    by (simp add: reviewed_example_def initial_state_def)
  show ?thesis
    using h1 h2 h3 fix_code_after_qa_without_feedback [OF h1, of Unavailable] by simp
qed

section \<open>Failures of the generation call\<close>

text \<open>
  Claim C7 says that a stage whose generation call fails substitutes a visibly marked
  placeholder into its artifact field. \<open>revise_user_stories\<close> does not: when the
  call raises it writes back the stories it was given.
\<close>

theorem revise_keeps_stories_counterexample:
  "\<not> falsy (user_stories stories_example) \<and> \<not> falsy (po_review_feedback stories_example)
   \<and> user_stories (revise_user_stories (Raises ''timeout'') stories_example) =
       Some ''As a user, I want to log in.''
   \<and> user_stories (revise_user_stories (Raises ''timeout'') stories_example) =
       user_stories stories_example"
  by (simp add: revise_user_stories_def stories_example_def initial_state_def Let_def
        increment_step_counter_def falsy_def)

text \<open>
  Claim C7, amended. In each of the ten stages that invoke the generation service, an
  exception raised by the call is caught inside the stage, which still increments
  \<open>step_counter\<close> and returns a state. The five producer stages then write a
  placeholder that starts with an error marker and carries the exception text; the five
  remediation stages keep the artifact they were given.
\<close>

theorem generation_failure_is_absorbed:
  "step_counter (create_user_stories (Raises e) s) = Some (get_step_counter s + 1)
   \<and> step_counter (create_design (Raises e) s) = Some (get_step_counter s + 1)
   \<and> step_counter (generate_code (Raises e) s) = Some (get_step_counter s + 1)
   \<and> step_counter (write_test_cases (Raises e) s) = Some (get_step_counter s + 1)
   \<and> step_counter (monitoring_and_feedback (Raises e) s) = Some (get_step_counter s + 1)
   \<and> step_counter (revise_user_stories (Raises e) s) = Some (get_step_counter s + 1)
   \<and> step_counter (fix_code_after_code_review (Raises e) s) = Some (get_step_counter s + 1)
   \<and> step_counter (fix_code_after_security (Raises e) s) = Some (get_step_counter s + 1)
   \<and> step_counter (fix_test_cases_after_review (Raises e) s) = Some (get_step_counter s + 1)
   \<and> step_counter (fix_code_after_qa_feedback (Raises e) s) = Some (get_step_counter s + 1)
   \<and> (\<not> falsy (user_requirements s) \<longrightarrow>
        user_stories (create_user_stories (Raises e) s) =
          Some (''Error generating stories: '' @ e))
   \<and> (\<not> falsy (user_stories s) \<longrightarrow>
        design_documents (create_design (Raises e) s) =
          Some (''Error creating design documents: '' @ e))
   \<and> (\<not> falsy (design_documents s) \<or> \<not> falsy (user_stories s) \<longrightarrow>
        generated_code (generate_code (Raises e) s) =
          Some (''# Error generating code: '' @ e))
   \<and> (\<not> no_valid_code (generated_code s) \<longrightarrow>
        test_cases (write_test_cases (Raises e) s) =
          Some (''Error generating test cases: '' @ e))
   \<and> (\<not> no_valid_code (generated_code s) \<longrightarrow>
        monitoring_feedback (monitoring_and_feedback (Raises e) s) =
          Some (''Error during monitoring: '' @ e))
   \<and> (\<not> falsy (user_stories s) \<and> \<not> falsy (po_review_feedback s) \<longrightarrow>
        user_stories (revise_user_stories (Raises e) s) = user_stories s)
   \<and> (\<not> falsy (generated_code s) \<and> \<not> falsy (code_review_feedback s) \<longrightarrow>
        generated_code (fix_code_after_code_review (Raises e) s) = generated_code s)
   \<and> (\<not> falsy (generated_code s) \<and> \<not> falsy (security_review_feedback s) \<longrightarrow>
        generated_code (fix_code_after_security (Raises e) s) = generated_code s)
   \<and> (\<not> falsy (test_cases s) \<and> \<not> falsy (test_case_review_feedback s) \<longrightarrow>
        test_cases (fix_test_cases_after_review (Raises e) s) = test_cases s)
   \<and> (\<not> falsy (generated_code s) \<and> \<not> falsy (qa_test_feedback s) \<longrightarrow>
        generated_code (fix_code_after_qa_feedback (Raises e) s) = generated_code s)"
  apply (simp only: sc_stage simp_thms)
  apply (simp add: create_user_stories_def create_design_def generate_code_def
        write_test_cases_def monitoring_and_feedback_def revise_user_stories_def
        fix_code_after_code_review_def fix_code_after_security_def
        fix_test_cases_after_review_def fix_code_after_qa_feedback_def
        Let_def increment_step_counter_def)
  done

theorem generation_failure_is_absorbed_witness:
  "\<not> falsy (user_stories stories_example)
   \<and> \<not> falsy (po_review_feedback stories_example)
   \<and> step_counter (create_design (Raises ''timeout'') stories_example) = Some 1
   \<and> design_documents (create_design (Raises ''timeout'') stories_example) =
        Some ''Error creating design documents: timeout''
   \<and> step_counter (revise_user_stories (Raises ''timeout'') stories_example) = Some 1
   \<and> user_stories (revise_user_stories (Raises ''timeout'') stories_example) =
        Some ''As a user, I want to log in.''"
proof -
  have h1: "\<not> falsy (user_stories stories_example)"
    by (simp add: stories_example_def initial_state_def falsy_def)
  have h2: "\<not> falsy (po_review_feedback stories_example)"
    by (simp add: stories_example_def initial_state_def falsy_def)
  have h3: "get_step_counter stories_example = 0"
    by (simp add: stories_example_def initial_state_def get_step_counter_def)
  have h4: "user_stories stories_example = Some ''As a user, I want to log in.''"
    by (simp add: stories_example_def initial_state_def)
  show ?thesis
    using h1 h2 h3 h4 generation_failure_is_absorbed [of "''timeout''" stories_example]
    by simp
qed

section \<open>Stepping the engine\<close>

lemma then_run_simps:
  "then_run node (Inl err) = Inl err"
  "then_run node (Inr (trace, final)) = Inr (node # trace, final)"
  by (simp_all add: then_run_def)

lemma run_from_exhausted:
  "run_from 0 oracle ui k node s = Inl RecursionLimitExceeded"
  by simp

lemma step_gather_requirements:
  "0 < cap \<Longrightarrow> run_from cap oracle ui k ''gather_requirements'' s =
     then_run ''gather_requirements''
       (run_from (cap - 1) oracle ui (Suc k) ''create_user_stories'' (merge s (gather_requirements ui s)))"
  by (cases cap)
     (simp_all add: nodes_def next_node_def conditional_edges_def edges_def END_def
        then_run_def)

lemma step_create_user_stories:
  "0 < cap \<Longrightarrow> run_from cap oracle ui k ''create_user_stories'' s =
     then_run ''create_user_stories''
       (run_from (cap - 1) oracle ui (Suc k) ''product_owner_review'' (merge s (create_user_stories (oracle k) s)))"
  by (cases cap)
     (simp_all add: nodes_def next_node_def conditional_edges_def edges_def END_def
        then_run_def)

lemma step_revise_user_stories:
  "0 < cap \<Longrightarrow> run_from cap oracle ui k ''revise_user_stories'' s =
     then_run ''revise_user_stories''
       (run_from (cap - 1) oracle ui (Suc k) ''product_owner_review'' (merge s (revise_user_stories (oracle k) s)))"
  by (cases cap)
     (simp_all add: nodes_def next_node_def conditional_edges_def edges_def END_def
        then_run_def)

lemma step_create_design:
  "0 < cap \<Longrightarrow> run_from cap oracle ui k ''create_design'' s =
     then_run ''create_design''
       (run_from (cap - 1) oracle ui (Suc k) ''design_review'' (merge s (create_design (oracle k) s)))"
  by (cases cap)
     (simp_all add: nodes_def next_node_def conditional_edges_def edges_def END_def
        then_run_def)

lemma step_generate_code:
  "0 < cap \<Longrightarrow> run_from cap oracle ui k ''generate_code'' s =
     then_run ''generate_code''
       (run_from (cap - 1) oracle ui (Suc k) ''code_review'' (merge s (generate_code (oracle k) s)))"
  by (cases cap)
     (simp_all add: nodes_def next_node_def conditional_edges_def edges_def END_def
        then_run_def)

lemma step_fix_code_after_code_review:
  "0 < cap \<Longrightarrow> run_from cap oracle ui k ''fix_code_after_code_review'' s =
     then_run ''fix_code_after_code_review''
       (run_from (cap - 1) oracle ui (Suc k) ''code_review'' (merge s (fix_code_after_code_review (oracle k) s)))"
  by (cases cap)
     (simp_all add: nodes_def next_node_def conditional_edges_def edges_def END_def
        then_run_def)

lemma step_fix_code_after_security:
  "0 < cap \<Longrightarrow> run_from cap oracle ui k ''fix_code_after_security'' s =
     then_run ''fix_code_after_security''
       (run_from (cap - 1) oracle ui (Suc k) ''security_review'' (merge s (fix_code_after_security (oracle k) s)))"
  by (cases cap)
     (simp_all add: nodes_def next_node_def conditional_edges_def edges_def END_def
        then_run_def)

lemma step_write_test_cases:
  "0 < cap \<Longrightarrow> run_from cap oracle ui k ''write_test_cases'' s =
     then_run ''write_test_cases''
       (run_from (cap - 1) oracle ui (Suc k) ''test_cases_review'' (merge s (write_test_cases (oracle k) s)))"
  by (cases cap)
     (simp_all add: nodes_def next_node_def conditional_edges_def edges_def END_def
        then_run_def)

lemma step_fix_test_cases_after_review:
  "0 < cap \<Longrightarrow> run_from cap oracle ui k ''fix_test_cases_after_review'' s =
     then_run ''fix_test_cases_after_review''
       (run_from (cap - 1) oracle ui (Suc k) ''test_cases_review'' (merge s (fix_test_cases_after_review (oracle k) s)))"
  by (cases cap)
     (simp_all add: nodes_def next_node_def conditional_edges_def edges_def END_def
        then_run_def)

lemma step_fix_code_after_qa_feedback:
  "0 < cap \<Longrightarrow> run_from cap oracle ui k ''fix_code_after_qa_feedback'' s =
     then_run ''fix_code_after_qa_feedback''
       (run_from (cap - 1) oracle ui (Suc k) ''qa_testing'' (merge s (fix_code_after_qa_feedback (oracle k) s)))"
  by (cases cap)
     (simp_all add: nodes_def next_node_def conditional_edges_def edges_def END_def
        then_run_def)

lemma step_deployment:
  "0 < cap \<Longrightarrow> run_from cap oracle ui k ''deployment'' s =
     then_run ''deployment''
       (run_from (cap - 1) oracle ui (Suc k) ''monitoring_and_feedback'' (merge s (deployment s)))"
  by (cases cap)
     (simp_all add: nodes_def next_node_def conditional_edges_def edges_def END_def
        then_run_def)

lemma step_monitoring_and_feedback:
  "0 < cap \<Longrightarrow> run_from cap oracle ui k ''monitoring_and_feedback'' s =
     then_run ''monitoring_and_feedback''
       (run_from (cap - 1) oracle ui (Suc k) ''maintenance_and_updates'' (merge s (monitoring_and_feedback (oracle k) s)))"
  by (cases cap)
     (simp_all add: nodes_def next_node_def conditional_edges_def edges_def END_def
        then_run_def)

lemma step_product_owner_review:
  "0 < cap \<Longrightarrow> run_from cap oracle ui k ''product_owner_review'' s =
     then_run ''product_owner_review''
       (run_from (cap - 1) oracle ui (Suc k)
          (decide_after_po_review (merge s (product_owner_review s))) (merge s (product_owner_review s)))"
  by (cases cap)
     (simp_all add: nodes_def next_node_def conditional_edges_def edges_def END_def
        then_run_def decide_after_po_review_def Let_def)

lemma step_design_review:
  "0 < cap \<Longrightarrow> run_from cap oracle ui k ''design_review'' s =
     then_run ''design_review''
       (run_from (cap - 1) oracle ui (Suc k)
          (decide_after_design_review (merge s (design_review s))) (merge s (design_review s)))"
  by (cases cap)
     (simp_all add: nodes_def next_node_def conditional_edges_def edges_def END_def
        then_run_def decide_after_design_review_def Let_def)

lemma step_code_review:
  "0 < cap \<Longrightarrow> run_from cap oracle ui k ''code_review'' s =
     then_run ''code_review''
       (run_from (cap - 1) oracle ui (Suc k)
          (decide_after_code_review (merge s (code_review s))) (merge s (code_review s)))"
  by (cases cap)
     (simp_all add: nodes_def next_node_def conditional_edges_def edges_def END_def
        then_run_def decide_after_code_review_def Let_def)

lemma step_security_review:
  "0 < cap \<Longrightarrow> run_from cap oracle ui k ''security_review'' s =
     then_run ''security_review''
       (run_from (cap - 1) oracle ui (Suc k)
          (decide_after_security_review (merge s (security_review s))) (merge s (security_review s)))"
  by (cases cap)
     (simp_all add: nodes_def next_node_def conditional_edges_def edges_def END_def
        then_run_def decide_after_security_review_def Let_def)

lemma step_test_cases_review:
  "0 < cap \<Longrightarrow> run_from cap oracle ui k ''test_cases_review'' s =
     then_run ''test_cases_review''
       (run_from (cap - 1) oracle ui (Suc k)
          (decide_after_test_cases_review (merge s (test_cases_review s))) (merge s (test_cases_review s)))"
  by (cases cap)
     (simp_all add: nodes_def next_node_def conditional_edges_def edges_def END_def
        then_run_def decide_after_test_cases_review_def Let_def)

lemma step_qa_testing:
  "0 < cap \<Longrightarrow> run_from cap oracle ui k ''qa_testing'' s =
     then_run ''qa_testing''
       (run_from (cap - 1) oracle ui (Suc k)
          (decide_after_qa_testing (merge s (qa_testing s))) (merge s (qa_testing s)))"
  by (cases cap)
     (simp_all add: nodes_def next_node_def conditional_edges_def edges_def END_def
        then_run_def decide_after_qa_testing_def Let_def)

lemma step_maintenance_and_updates:
  "0 < cap \<Longrightarrow> run_from cap oracle ui k ''maintenance_and_updates'' s =
     Inr ([''maintenance_and_updates''], merge s (maintenance_and_updates s))"
  by (cases cap)
     (simp_all add: nodes_def next_node_def conditional_edges_def edges_def END_def)

lemmas run_step =
  step_gather_requirements step_create_user_stories step_revise_user_stories
  step_create_design step_generate_code step_fix_code_after_code_review
  step_fix_code_after_security step_write_test_cases step_fix_test_cases_after_review
  step_fix_code_after_qa_feedback step_deployment step_monitoring_and_feedback
  step_product_owner_review step_design_review step_code_review step_security_review
  step_test_cases_review step_qa_testing step_maintenance_and_updates

lemmas stage_defs =
  gather_requirements_def create_user_stories_def product_owner_review_def
  revise_user_stories_def create_design_def design_review_def generate_code_def
  code_review_def fix_code_after_code_review_def security_review_def
  fix_code_after_security_def write_test_cases_def test_cases_review_def
  fix_test_cases_after_review_def qa_testing_def fix_code_after_qa_feedback_def
  deployment_def monitoring_and_feedback_def maintenance_and_updates_def

lemmas decide_defs =
  decide_after_po_review_def decide_after_design_review_def
  decide_after_code_review_def decide_after_security_review_def
  decide_after_test_cases_review_def decide_after_qa_testing_def

lemmas state_defs =
  merge_def increment_step_counter_def get_step_counter_def Let_def

lemmas text_defs =
  falsy_def fmt_def startswith_def no_valid_code_def no_valid_tests_def

lemma run_from_cap:
  "run_from cap oracle ui k node s = Inr (tr, f) \<Longrightarrow>
   run_from cap' oracle ui k node s =
     (if length tr \<le> cap' then Inr (tr, f) else Inl RecursionLimitExceeded)"
proof (induction cap arbitrary: cap' k node s tr)
  case 0
  then show ?case by simp
next
  case (Suc cap)
  from Suc.prems obtain stage_fn where fn: "map_of nodes node = Some stage_fn"
    by (auto split: option.splits)
  define s' where "s' = merge s (stage_fn (oracle k) ui s)"
  from Suc.prems fn obtain succ where nx: "next_node node s' = Some succ"
    by (auto simp add: s'_def Let_def split: option.splits)
  show ?case
  proof (cases "succ = END")
    case True
    with Suc.prems fn nx have "tr = [node]" "f = s'"
      by (auto simp add: s'_def Let_def)
    with True fn nx show ?thesis
      by (cases cap') (auto simp add: s'_def Let_def)
  next
    case False
    with Suc.prems fn nx obtain tr0 where
      rec: "run_from cap oracle ui (Suc k) succ s' = Inr (tr0, f)" and tr: "tr = node # tr0"
      by (auto simp add: s'_def Let_def split: sum.splits)
    show ?thesis
    proof (cases cap')
      case 0
      with tr show ?thesis by simp
    next
      case (Suc c)
      from Suc.IH [OF rec, of c] False fn nx tr Suc show ?thesis
        by (auto simp add: s'_def Let_def)
    qed
  qed
qed

lemma run_from_last:
  "run_from cap oracle ui k node s = Inr (trace, final) \<Longrightarrow>
     last trace = ''maintenance_and_updates''"
proof (induction cap arbitrary: k node s trace)
  case 0
  then show ?case by simp
next
  case (Suc cap)
  from Suc.prems obtain stage_fn where fn: "map_of nodes node = Some stage_fn"
    by (auto split: option.splits)
  define s' where "s' = merge s (stage_fn (oracle k) ui s)"
  from Suc.prems fn obtain succ where nx: "next_node node s' = Some succ"
    by (auto simp add: s'_def Let_def split: option.splits)
  show ?case
  proof (cases "succ = END")
    case True
    with Suc.prems fn nx have tr: "trace = [node]"
      by (auto simp add: s'_def Let_def)
    have "node = ''maintenance_and_updates''"
      using nx True fn
      by (auto simp add: next_node_def conditional_edges_def edges_def END_def
            decide_defs nodes_def split: if_splits option.splits)
    with tr show ?thesis by simp
  next
    case False
    with Suc.prems fn nx obtain tr0 where
      rec: "run_from cap oracle ui (Suc k) succ s' = Inr (tr0, final)"
      and tr: "trace = node # tr0"
      by (auto simp add: s'_def Let_def split: sum.splits)
    from rec have "tr0 \<noteq> []"
      by (cases cap) (auto simp add: Let_def split: option.splits if_splits sum.splits)
    with Suc.IH [OF rec] tr show ?thesis by simp
  qed
qed

section \<open>Full runs\<close>

lemmas run_eval = run_step run_from_exhausted then_run_simps
  state_defs stage_defs decide_defs text_defs

lemma gather_initial:
  "r \<noteq> [] \<Longrightarrow> \<exists>r'. r' \<noteq> [] \<and>
     merge (initial_state r p) (gather_requirements ui (initial_state r p)) =
       (initial_state r' p)\<lparr>step_counter := Some 1\<rparr>"
  by (cases "ui = []") (simp_all add: gather_requirements_def state_defs initial_state_def)

lemma run_after_gather:
  assumes "r \<noteq> []"
  shows "\<exists>r'. r' \<noteq> [] \<and> (\<forall>cap. run cap orc ui (initial_state r p) =
           (if cap = 0 then Inl RecursionLimitExceeded
            else then_run ''gather_requirements''
                   (run_from (cap - 1) orc ui (Suc 0) ''create_user_stories''
                      ((initial_state r' p)\<lparr>step_counter := Some 1\<rparr>))))"
proof -
  from gather_initial [OF assms] obtain r' where r': "r' \<noteq> []"
    and g: "merge (initial_state r p) (gather_requirements ui (initial_state r p)) =
              (initial_state r' p)\<lparr>step_counter := Some 1\<rparr>"
    by blast
  have "run cap orc ui (initial_state r p) =
           (if cap = 0 then Inl RecursionLimitExceeded
            else then_run ''gather_requirements''
                   (run_from (cap - 1) orc ui (Suc 0) ''create_user_stories''
                      ((initial_state r' p)\<lparr>step_counter := Some 1\<rparr>)))" for cap
  proof (cases "cap = 0")
    case True
    then show ?thesis by (simp add: run_def)
  next
    case False
    then have "0 < cap" by simp
    from step_gather_requirements [OF this] g False show ?thesis
      by (simp add: run_def entry_point_def)
  qed
  with r' show ?thesis by blast
qed

subsection \<open>A service that returns text on every call\<close>

lemma strip_error_reply: "strip ''# Error handling'' = ''# Error handling''"
  by (simp add: strip_def isspace_def)

lemma clean_error_reply: "clean_code ''# Error handling'' = ''# Error handling''"
  by (simp add: clean_code_def strip_error_reply removeprefix_def removesuffix_def
        startswith_def endswith_def fence_def fence_python_def)

text \<open>
  Claim C2 says that with a service that returns a string on every call the run reaches
  \<open>maintenance_and_updates\<close> within 30 stage invocations. A service that answers every
  request with the text \<open># Error handling\<close> returns a string on every call, yet
  \<open>code_review\<close> rejects that text each time and the cap is used up in the repair loop.
\<close>

theorem error_reply_run_counterexample:
  "run 30 (always_returns ''# Error handling'') []
     (initial_state ''Build a login page with SSO'' (Some ''groq''))
     = Inl RecursionLimitExceeded"
  by (simp add: run_def entry_point_def run_eval initial_state_def always_returns_def
        strip_error_reply clean_error_reply del: run_from.simps)

lemma approved_tail:
  assumes r: "r \<noteq> []"
    and ok: "\<And>k. passes_review (c k)"
  shows "\<exists>final. run_from 29 (\<lambda>k. Content (c k)) ui (Suc 0) ''create_user_stories''
            ((initial_state r p)\<lparr>step_counter := Some 1\<rparr>) = Inr (tl approved_trace, final)
          \<and> step_counter final = Some (- 1)
          \<and> deployment_status final =
               Some ''Deployed to Staging Environment. Verification tests passed.''"
proof -
  have a1: "\<And>k. strip (c k) \<noteq> []"
    using ok by (simp add: passes_review_def)
  have a2: "\<And>k. no_valid_code (Some (clean_code (c k))) = False"
    using ok by (simp add: passes_review_def)
  have a3: "\<And>k. no_valid_tests (Some (strip (c k))) = False"
    using ok by (simp add: passes_review_def)
  have a4: "\<And>k. clean_code (c k) \<noteq> []"
    using a2 by (auto simp add: no_valid_code_def)
  show ?thesis
    using r
    by (simp add: run_step run_from_exhausted then_run_simps state_defs stage_defs
          decide_defs falsy_def fmt_def initial_state_def approved_trace_def
          a1 a2 a3 a4 del: run_from.simps)
qed

text \<open>
  Claim C2, amended. From every initial state with non-empty \<open>user_requirements\<close>,
  and with a generation service that on every call returns a text that passes review
  (not blank after trimming and fence removal, not starting with \<open># Error\<close> or
  \<open># Code generation skipped\<close> as code, not starting with
  \<open>Test case generation skipped\<close> or \<open>Error generating\<close> as test text), the run
  from \<open>gather_requirements\<close> reaches \<open>maintenance_and_updates\<close> after 14 stage
  invocations, within the cap of 30, and ends with a deployed status.
\<close>

theorem reviewed_generation_reaches_terminal:
  assumes "requirements \<noteq> []"
    and "\<forall>k. \<exists>c. oracle k = Content c \<and> passes_review c"
  shows "(\<exists>final. run 30 oracle ui (initial_state requirements provider)
                    = Inr (approved_trace, final)
               \<and> step_counter final = Some (- 1)
               \<and> deployment_status final =
                    Some ''Deployed to Staging Environment. Verification tests passed.'')
       \<and> length approved_trace = 14
       \<and> last approved_trace = ''maintenance_and_updates''"
proof -
  from assms(2) obtain c where c: "\<And>k. oracle k = Content (c k)" "\<And>k. passes_review (c k)"
    by metis
  then have orc: "oracle = (\<lambda>k. Content (c k))"
    by auto
  have "\<exists>r'. r' \<noteq> [] \<and>
          (\<forall>cap. run cap oracle ui (initial_state requirements provider) =
             (if cap = 0 then Inl RecursionLimitExceeded
              else then_run ''gather_requirements''
                     (run_from (cap - 1) oracle ui (Suc 0) ''create_user_stories''
                        ((initial_state r' provider)\<lparr>step_counter := Some 1\<rparr>))))"
    by (rule run_after_gather) (fact assms(1))
  then obtain r' where r': "r' \<noteq> []"
    and run30: "run 30 oracle ui (initial_state requirements provider) =
                  then_run ''gather_requirements''
                    (run_from 29 oracle ui (Suc 0) ''create_user_stories''
                       ((initial_state r' provider)\<lparr>step_counter := Some 1\<rparr>))"
    by force
  have "\<exists>final. run_from 29 (\<lambda>k. Content (c k)) ui (Suc 0) ''create_user_stories''
            ((initial_state r' provider)\<lparr>step_counter := Some 1\<rparr>)
              = Inr (tl approved_trace, final)
          \<and> step_counter final = Some (- 1)
          \<and> deployment_status final =
               Some ''Deployed to Staging Environment. Verification tests passed.''"
    by (rule approved_tail) (fact r', fact c(2))
  then obtain final where
    tail: "run_from 29 oracle ui (Suc 0) ''create_user_stories''
             ((initial_state r' provider)\<lparr>step_counter := Some 1\<rparr>)
           = Inr (tl approved_trace, final)"
    and fin: "step_counter final = Some (- 1)"
      "deployment_status final =
         Some ''Deployed to Staging Environment. Verification tests passed.''"
    unfolding orc by blast
  have "run 30 oracle ui (initial_state requirements provider) = Inr (approved_trace, final)"
    by (simp add: run30 tail then_run_simps) (simp add: approved_trace_def)
  with fin show ?thesis
    by (simp add: approved_trace_def)
qed

theorem reviewed_generation_reaches_terminal_witness:
  "''Build a login page with SSO'' \<noteq> []
   \<and> passes_review ''def login(): return True''
   \<and> (\<exists>final. run 30 (always_returns ''def login(): return True'') []
                  (initial_state ''Build a login page with SSO'' (Some ''groq''))
                = Inr (approved_trace, final)
             \<and> deployment_status final =
                  Some ''Deployed to Staging Environment. Verification tests passed.'')"
proof -
  have h1: "''Build a login page with SSO'' \<noteq> []"
    by simp
  have s: "strip ''def login(): return True'' = ''def login(): return True''"
    by (simp add: strip_def isspace_def)
  have h2: "passes_review ''def login(): return True''"
    by (simp add: passes_review_def clean_code_def s removeprefix_def removesuffix_def
          startswith_def endswith_def fence_def fence_python_def no_valid_code_def
          no_valid_tests_def)
  have h3: "\<forall>k. \<exists>c. always_returns ''def login(): return True'' k = Content c
                    \<and> passes_review c"
    using h2 by (simp add: always_returns_def)
  show ?thesis
    using h1 h2 reviewed_generation_reaches_terminal [OF h1 h3,
            where ui = "[]" and provider = "Some ''groq''"]
    by blast
qed

subsection \<open>No generation service\<close>

lemma unavailable_tail:
  assumes "r \<noteq> []"
  shows "\<exists>trace final.
           run_from 33 always_unavailable ui (Suc 0) ''create_user_stories''
             ((initial_state r p)\<lparr>step_counter := Some 1\<rparr>) = Inr (trace, final)
         \<and> length trace = 33
         \<and> startswith (the (generated_code final)) ''# Code generation skipped.''
         \<and> generated_code final \<noteq> Some ''# Code generation skipped.''"
  using assms
  by (simp add: run_eval initial_state_def always_unavailable_def del: run_from.simps)

lemma unavailable_run:
  assumes "r \<noteq> []"
  shows "\<exists>trace final.
           (\<forall>cap. run cap always_unavailable ui (initial_state r p) =
              (if length trace \<le> cap then Inr (trace, final)
               else Inl RecursionLimitExceeded))
         \<and> length trace = 34
         \<and> startswith (the (generated_code final)) ''# Code generation skipped.''
         \<and> generated_code final \<noteq> Some ''# Code generation skipped.''"
proof -
  from run_after_gather [OF assms, where orc = always_unavailable and ui = ui and p = p]
  obtain r' where r': "r' \<noteq> []"
    and run: "\<And>cap. run cap always_unavailable ui (initial_state r p) =
           (if cap = 0 then Inl RecursionLimitExceeded
            else then_run ''gather_requirements''
                   (run_from (cap - 1) always_unavailable ui (Suc 0) ''create_user_stories''
                      ((initial_state r' p)\<lparr>step_counter := Some 1\<rparr>)))"
    by blast
  from unavailable_tail [OF r', where ui = ui and p = p] obtain trace final where
    tail: "run_from 33 always_unavailable ui (Suc 0) ''create_user_stories''
             ((initial_state r' p)\<lparr>step_counter := Some 1\<rparr>) = Inr (trace, final)"
    and len: "length trace = 33"
    and code: "startswith (the (generated_code final)) ''# Code generation skipped.''"
      "generated_code final \<noteq> Some ''# Code generation skipped.''"
    by blast
  have "run cap always_unavailable ui (initial_state r p) =
          (if length (''gather_requirements'' # trace) \<le> cap
           then Inr (''gather_requirements'' # trace, final)
           else Inl RecursionLimitExceeded)" for cap
    using run_from_cap [OF tail, where cap' = "cap - 1"] len
    by (auto simp add: run then_run_simps)
  moreover have "length (''gather_requirements'' # trace) = 34"
    using len by simp
  ultimately show ?thesis
    using code by blast
qed

text \<open>
  Claim C9 says that without a generation service the run ends at
  \<open>maintenance_and_updates\<close> with \<open>generated_code\<close> equal to
  \<open># Code generation skipped.\<close>. Under the cap of 30 the run does not reach the
  terminal stage: \<open>code_review\<close> rejects the skip marker and the repair loop runs
  until the loop guard lets it through, too late for the cap.
\<close>

theorem unavailable_run_counterexample:
  "run 30 always_unavailable []
     (initial_state ''Build a login page with SSO'' (Some ''groq''))
     = Inl RecursionLimitExceeded"
proof -
  have "''Build a login page with SSO'' \<noteq> []" by simp
  from unavailable_run [OF this, where ui = "[]" and p = "Some ''groq''"] show ?thesis
    by auto
qed

text \<open>
  Claim C9, amended. Without a generation service, \<open>generate_code\<close> writes exactly
  \<open># Code generation skipped.\<close> whenever it has a design document or user stories;
  \<open>code_review\<close> rejects code that starts with that marker and leaves it as it is;
  \<open>fix_code_after_code_review\<close>, having no client, appends a note with the review
  feedback to the code it was given. Hence, in a full run from an initial state with
  non-empty \<open>user_requirements\<close>, whenever the run reaches
  \<open>maintenance_and_updates\<close> the final \<open>generated_code\<close> starts with
  \<open># Code generation skipped.\<close> and is not equal to the marker alone.
\<close>

theorem unavailable_generation_run:
  assumes "requirements \<noteq> []"
  shows "(\<not> falsy (design_documents s) \<or> \<not> falsy (user_stories s) \<longrightarrow>
            generated_code (generate_code Unavailable s) = Some ''# Code generation skipped.'')
       \<and> (generated_code s = Some code \<and> startswith code ''# Code generation skipped'' \<longrightarrow>
            code_review_outcome (code_review s) = Some ''Rejected''
          \<and> code_review_feedback (code_review s) = Some ''No valid code provided for review.''
          \<and> generated_code (code_review s) = Some code)
       \<and> (generated_code s = Some code \<and> code \<noteq> []
            \<and> code_review_feedback s = Some feedback \<and> feedback \<noteq> [] \<longrightarrow>
            generated_code (fix_code_after_code_review Unavailable s) =
              Some (code @ NL @ NL @ ''# Revision skipped - feedback was: '' @ feedback))
       \<and> (\<forall>cap trace final.
             run cap always_unavailable ui (initial_state requirements provider)
               = Inr (trace, final) \<longrightarrow>
             last trace = ''maintenance_and_updates''
           \<and> startswith (the (generated_code final)) ''# Code generation skipped.''
           \<and> generated_code final \<noteq> Some ''# Code generation skipped.'')"
proof -
  have a: "\<not> falsy (design_documents s) \<or> \<not> falsy (user_stories s) \<longrightarrow>
            generated_code (generate_code Unavailable s) = Some ''# Code generation skipped.''"
    by (simp add: generate_code_def Let_def increment_step_counter_def)
  have b: "generated_code s = Some code \<and> startswith code ''# Code generation skipped'' \<longrightarrow>
            code_review_outcome (code_review s) = Some ''Rejected''
          \<and> code_review_feedback (code_review s) = Some ''No valid code provided for review.''
          \<and> generated_code (code_review s) = Some code"
    by (auto simp add: code_review_def Let_def increment_step_counter_def no_valid_code_def)
  have c: "generated_code s = Some code \<and> code \<noteq> []
            \<and> code_review_feedback s = Some feedback \<and> feedback \<noteq> [] \<longrightarrow>
            generated_code (fix_code_after_code_review Unavailable s) =
              Some (code @ NL @ NL @ ''# Revision skipped - feedback was: '' @ feedback)"
    by (auto simp add: fix_code_after_code_review_def Let_def increment_step_counter_def
          falsy_def fmt_def)
  from unavailable_run [OF assms, where ui = ui and p = provider] obtain trace0 final0 where
    run: "\<And>cap. run cap always_unavailable ui (initial_state requirements provider) =
              (if length trace0 \<le> cap then Inr (trace0, final0)
               else Inl RecursionLimitExceeded)"
    and code: "startswith (the (generated_code final0)) ''# Code generation skipped.''"
      "generated_code final0 \<noteq> Some ''# Code generation skipped.''"
    by blast
  have d: "last trace = ''maintenance_and_updates''
           \<and> startswith (the (generated_code final)) ''# Code generation skipped.''
           \<and> generated_code final \<noteq> Some ''# Code generation skipped.''"
    if "run cap always_unavailable ui (initial_state requirements provider)
          = Inr (trace, final)" for cap trace final
  proof -
    from that run [of cap] have eq: "trace = trace0" "final = final0"
      by (auto split: if_splits)
    from that have "last trace = ''maintenance_and_updates''"
      unfolding run_def by (rule run_from_last)
    with eq code show ?thesis by simp
  qed
  from a b c d show ?thesis by blast
qed

theorem unavailable_generation_run_witness:
  "''Build a login page with SSO'' \<noteq> []
   \<and> (\<exists>trace final.
         run 40 always_unavailable ''Build a login page with SSO''
           (initial_state ''Build a login page with SSO'' (Some ''groq''))
           = Inr (trace, final)
       \<and> last trace = ''maintenance_and_updates''
       \<and> startswith (the (generated_code final)) ''# Code generation skipped.''
       \<and> generated_code final \<noteq> Some ''# Code generation skipped.'')"
proof -
  have h: "''Build a login page with SSO'' \<noteq> []"
    by simp
  from unavailable_run [OF h, where ui = "''Build a login page with SSO''"
         and p = "Some ''groq''"]
  obtain trace final where
    r: "run 40 always_unavailable ''Build a login page with SSO''
          (initial_state ''Build a login page with SSO'' (Some ''groq''))
          = Inr (trace, final)"
    by auto
  show ?thesis
    using h r unavailable_generation_run [OF h, where ui = "''Build a login page with SSO''"
                and provider = "Some ''groq''"]
    by blast
qed

end
